theory Spec2Isabelle
  imports Main
begin

section \<open>Data model (models.py)\<close>

text \<open>
  Python exceptions that the service code raises itself, and the exceptions of the
  external client library. \<open>ValueError\<close> (missing credential) and \<open>RuntimeError\<close>
  (handle or workflow not initialised) are what the specification calls
  \<open>ConfigurationError\<close>; \<open>ProviderException\<close> stands for any exception raised by an
  \<open>invoke\<close> of the external model client (network, authentication, quota), and
  \<open>ValidationError\<close> is the failure of a structured output to validate as \<open>Feedback\<close>;
  the specification calls both \<open>ProviderError\<close>. \<open>GraphRecursionError\<close> is the exception
  with which the graph runtime ends a run that has used up its steps.
\<close>

datatype exn =
    ValueError string
  | RuntimeError string
  | KeyError string
  | ProviderException string
  | ValidationError string
  | GraphRecursionError

text \<open>
  \<open>class State(TypedDict)\<close>: at run time a dictionary from field names to strings; the
  workflow starts it as \<open>{"topic": topic}\<close>, so the other keys are absent at first.
\<close>

type_synonym State = "string \<rightharpoonup> string"

text \<open>
  \<open>class Feedback(BaseModel)\<close>: the structured output of the evaluator. The annotation
  of \<open>grade\<close> is \<open>Literal["good", "needs improvement"]\<close>, so an object of the class
  holds one of the two values; \<open>literal\<close> is the string of each, which is what the
  workflow state stores (its \<open>grade\<close> field is a plain \<open>str\<close>).
\<close>

datatype Grade = GOOD | NEEDS_IMPROVEMENT

fun literal :: "Grade \<Rightarrow> string" where
  "literal GOOD = ''good''"
| "literal NEEDS_IMPROVEMENT = ''needs improvement''"

definition grade_literals :: "string list" where
  "grade_literals = [literal GOOD, literal NEEDS_IMPROVEMENT]"

record Feedback =
  grade :: Grade
  feedback :: string

text \<open>
  The validation of the two fields as a \<open>Feedback\<close> object: a grade that is neither
  literal is refused with a \<open>ValidationError\<close>.
\<close>

definition Feedback_validate :: "string \<Rightarrow> string \<Rightarrow> exn + Feedback" where
  "Feedback_validate g fb =
     (if g = ''good'' then Inr \<lparr>grade = GOOD, feedback = fb\<rparr>
      else if g = ''needs improvement'' then Inr \<lparr>grade = NEEDS_IMPROVEMENT, feedback = fb\<rparr>
      else Inl (ValidationError g))"

text \<open>\<open>class PRStatementRequest\<close>: \<open>topic\<close> with \<open>min_length=1, max_length=500\<close>.\<close>

definition PRStatementRequest_valid :: "string \<Rightarrow> bool" where
  "PRStatementRequest_valid topic \<longleftrightarrow> 1 \<le> length topic \<and> length topic \<le> 500"

record PRStatementResponse =
  pr_statement :: string
  status :: string
  message :: string

section \<open>The external model client\<close>

text \<open>
  The two handles are objects of an external library. A handle is modelled by what its
  \<open>invoke\<close> answers: the number of earlier invocations of that handle and the prompt
  determine either an exception or a result. Every invocation is recorded in a log, in
  the order in which the calls happen.
\<close>

type_synonym llm_handle = "nat \<Rightarrow> string \<Rightarrow> exn + string"
type_synonym evaluator_handle = "nat \<Rightarrow> string \<Rightarrow> exn + Feedback"

text \<open>
  What the model answers to a call for structured output, before validation: the two
  fields \<open>grade\<close> and \<open>feedback\<close> as strings, or an exception. The evaluator handle
  \<open>with_structured_output(Feedback)\<close> validates the answer as a \<open>Feedback\<close> object, and its
  \<open>invoke\<close> raises when the validation fails.
\<close>

type_synonym structured_model = "nat \<Rightarrow> string \<Rightarrow> exn + string \<times> string"

definition validated_as_Feedback :: "structured_model \<Rightarrow> evaluator_handle" where
  "validated_as_Feedback raw n p =
     (case raw n p of
        Inl e \<Rightarrow> Inl e
      | Inr (g, fb) \<Rightarrow> Feedback_validate g fb)"

datatype call = LLM_invoke string | Evaluator_invoke string

fun llm_calls :: "call list \<Rightarrow> string list" where
  "llm_calls [] = []"
| "llm_calls (LLM_invoke p # cs) = p # llm_calls cs"
| "llm_calls (Evaluator_invoke p # cs) = llm_calls cs"

fun evaluator_calls :: "call list \<Rightarrow> string list" where
  "evaluator_calls [] = []"
| "evaluator_calls (LLM_invoke p # cs) = evaluator_calls cs"
| "evaluator_calls (Evaluator_invoke p # cs) = p # evaluator_calls cs"

section \<open>The workflow graph\<close>

datatype node = START | Generate_PR_Statement | Evaluate_PR_Statement | END

record StateGraph =
  edges :: "(node \<times> node) list"
  conditional_edges :: "(node \<times> (string \<times> node) list) list"

text \<open>The module globals \<open>_llm\<close>, \<open>_evaluator\<close> and \<open>_workflow_graph\<close>.\<close>

record globals =
  llm :: "llm_handle option"
  evaluator :: "evaluator_handle option"
  workflow_graph :: "StateGraph option"

text \<open>
  The constructors of the client library that \<open>initialize_llm\<close> calls: \<open>ChatGroq\<close>
  reads the credential from the process environment and is given the model name;
  \<open>with_structured_output\<close> binds the generator handle to structured calls, whose answers
  the evaluator handle validates against the schema \<open>Feedback\<close>.
\<close>

record client_library =
  ChatGroq :: "(string \<rightharpoonup> string) \<Rightarrow> string \<Rightarrow> exn + llm_handle"
  with_structured_output :: "llm_handle \<Rightarrow> exn + structured_model"

section \<open>services/pr\_generator.py\<close>

text \<open>
  \<open>initialize_llm\<close>: \<open>not groq_api_key\<close> holds for a missing and for an empty value.
  The \<open>except\<close> clause logs and re-raises. \<open>_llm\<close> is assigned before the evaluator is
  derived, so it stays assigned when the derivation raises.
\<close>

definition initialize_llm ::
  "client_library \<Rightarrow> (string \<rightharpoonup> string) \<Rightarrow> globals \<Rightarrow> (exn + unit) \<times> globals" where
  "initialize_llm L env G =
     (case env ''GROQ_API_KEY'' of
        None \<Rightarrow> (Inl (ValueError ''GROQ_API_KEY not found in environment variables''), G)
      | Some groq_api_key \<Rightarrow>
          if groq_api_key = []
          then (Inl (ValueError ''GROQ_API_KEY not found in environment variables''), G)
          else
            (case ChatGroq L (env(''GROQ_API_KEY'' \<mapsto> groq_api_key))
                    ''meta-llama/llama-4-scout-17b-16e-instruct'' of
               Inl e \<Rightarrow> (Inl e, G)
             | Inr l \<Rightarrow>
                 (case with_structured_output L l of
                    Inl e \<Rightarrow> (Inl e, G\<lparr>llm := Some l\<rparr>)
                  | Inr raw \<Rightarrow>
                      (Inr (), G\<lparr>llm := Some l,
                                 evaluator := Some (validated_as_Feedback raw)\<rparr>))))"

definition generation_prompt :: "string \<Rightarrow> string" where
  "generation_prompt topic =
     ''\<newline>        Generate a compelling PR statement for the topic '' @ topic @
     ''.\<newline>\<newline>        - The statement should highlight key benefits, address any potential concerns, and capture the excitement and innovation surrounding the subject.\<newline>        - Ensure that the tone is professional yet engaging, appealing to the target audience while maintaining clarity and impact.''"

definition feedback_clause :: "string \<Rightarrow> string" where
  "feedback_clause fb = '' Also take provided feedback into account: '' @ fb"

definition evaluation_prompt :: "string \<Rightarrow> string" where
  "evaluation_prompt statement =
     ''\<newline>        Review the following PR statement: '' @ statement @
     ''.\<newline>\<newline>        - Assess its clarity, engagement, and overall effectiveness in capturing the key benefits and addressing potential concerns.\<newline>        - Decide whether the statement is well-formed ('' @ [CHR 0x27] @ ''good'' @ [CHR 0x27] @
     '') or if it requires further refinement ('' @ [CHR 0x27] @ ''needs improvement'' @ [CHR 0x27] @
     '').\<newline>        - If it needs improvement, please provide concise and actionable feedback on how to enhance the statement.''"

text \<open>
  \<open>generate_pr_statement_node\<close>: the prompt that is sent is the base prompt, followed by
  the feedback clause when \<open>state.get("feedback")\<close> is truthy (present and non-empty).
  The \<open>except\<close> clause logs and re-raises, so an exception is the node's outcome.
\<close>

definition generate_pr_statement_node ::
  "globals \<Rightarrow> State \<Rightarrow> call list \<Rightarrow> (exn + State) \<times> call list" where
  "generate_pr_statement_node G state log =
     (case llm G of
        None \<Rightarrow> (Inl (RuntimeError ''LLM not initialized. Call initialize_llm() first.''), log)
      | Some l \<Rightarrow>
          (case state ''topic'' of
             None \<Rightarrow> (Inl (KeyError ''topic''), log)
           | Some topic \<Rightarrow>
               let prompt = generation_prompt topic;
                   sent = (case state ''feedback'' of
                             None \<Rightarrow> prompt
                           | Some fb \<Rightarrow> if fb \<noteq> [] then prompt @ feedback_clause fb else prompt)
               in (case l (length (llm_calls log)) sent of
                     Inl e \<Rightarrow> (Inl e, log @ [LLM_invoke sent])
                   | Inr content \<Rightarrow> (Inr [''pr_statement'' \<mapsto> content], log @ [LLM_invoke sent]))))"

definition evaluate_pr_statement_node ::
  "globals \<Rightarrow> State \<Rightarrow> call list \<Rightarrow> (exn + State) \<times> call list" where
  "evaluate_pr_statement_node G state log =
     (case evaluator G of
        None \<Rightarrow> (Inl (RuntimeError ''Evaluator not initialized. Call initialize_llm() first.''), log)
      | Some ev \<Rightarrow>
          (case state ''pr_statement'' of
             None \<Rightarrow> (Inl (KeyError ''pr_statement''), log)
           | Some statement \<Rightarrow>
               let prompt = evaluation_prompt statement
               in (case ev (length (evaluator_calls log)) prompt of
                     Inl e \<Rightarrow> (Inl e, log @ [Evaluator_invoke prompt])
                   | Inr decision \<Rightarrow>
                       (Inr [''grade'' \<mapsto> literal (grade decision),
                             ''feedback'' \<mapsto> feedback decision],
                        log @ [Evaluator_invoke prompt]))))"

definition route_statement :: "State \<Rightarrow> exn + string" where
  "route_statement state =
     (case state ''grade'' of
        None \<Rightarrow> Inl (KeyError ''grade'')
      | Some g \<Rightarrow> if g = ''good'' then Inr ''Accepted'' else Inr ''Rejected + Feedback'')"

text \<open>
  \<open>build_workflow\<close>: the two nodes, the edge from the start to generation, the edge from
  generation to evaluation, and the conditional edges out of evaluation, chosen by
  \<open>route_statement\<close>.
\<close>

definition compiled_workflow :: StateGraph where
  "compiled_workflow =
     \<lparr>edges = [(START, Generate_PR_Statement), (Generate_PR_Statement, Evaluate_PR_Statement)],
      conditional_edges =
        [(Evaluate_PR_Statement,
          [(''Accepted'', END), (''Rejected + Feedback'', Generate_PR_Statement)])]\<rparr>"

definition build_workflow :: "globals \<Rightarrow> (exn + unit) \<times> globals" where
  "build_workflow G = (Inr (), G\<lparr>workflow_graph := Some compiled_workflow\<rparr>)"

definition initialize_pr_generator ::
  "client_library \<Rightarrow> (string \<rightharpoonup> string) \<Rightarrow> globals \<Rightarrow> (exn + unit) \<times> globals" where
  "initialize_pr_generator L env G =
     (case initialize_llm L env G of
        (Inl e, G') \<Rightarrow> (Inl e, G')
      | (Inr u, G') \<Rightarrow> build_workflow G')"

text \<open>The function that \<open>add_node\<close> binds to each node name.\<close>

fun call_node :: "globals \<Rightarrow> node \<Rightarrow> State \<Rightarrow> call list \<Rightarrow> (exn + State) \<times> call list" where
  "call_node G Generate_PR_Statement state log = generate_pr_statement_node G state log"
| "call_node G Evaluate_PR_Statement state log = evaluate_pr_statement_node G state log"
| "call_node G START state log = (Inr Map.empty, log)"
| "call_node G END state log = (Inr Map.empty, log)"

text \<open>
  The node that follows \<open>n\<close>: the target of its edge, or, for a node with conditional
  edges, the entry of the path map under the answer of \<open>route_statement\<close>; a node without
  an outgoing edge ends the run.
\<close>

definition successor :: "StateGraph \<Rightarrow> node \<Rightarrow> State \<Rightarrow> exn + node" where
  "successor g n state =
     (case map_of (edges g) n of
        Some n' \<Rightarrow> Inr n'
      | None \<Rightarrow>
          (case map_of (conditional_edges g) n of
             None \<Rightarrow> Inr END
           | Some path_map \<Rightarrow>
               (case route_statement state of
                  Inl e \<Rightarrow> Inl e
                | Inr r \<Rightarrow>
                    (case map_of path_map r of
                       None \<Rightarrow> Inl (KeyError r)
                     | Some n' \<Rightarrow> Inr n'))))"

text \<open>
  The graph runtime ends a run after a number of executed nodes, the recursion limit:
  25 unless the configuration of the call sets another, and \<open>compile()\<close> and \<open>ainvoke\<close>
  are called without any configuration. A run that has used up its steps without reaching
  the end raises \<open>GraphRecursionError\<close>.
\<close>

definition recursion_limit :: nat where
  "recursion_limit = 25"

text \<open>
  Running the graph from a node with a number of steps left: the node's function is
  called, the dictionary it returns is merged into the state (its keys overwrite), and the
  run goes on at the successor with one step less. An exception of a node or of the router
  ends the run at once.
\<close>

fun run_from ::
  "globals \<Rightarrow> StateGraph \<Rightarrow> nat \<Rightarrow> node \<Rightarrow> State \<Rightarrow> call list \<Rightarrow> (exn + State) \<times> call list" where
  "run_from G g 0 n state log =
     (if n = END then (Inr state, log) else (Inl GraphRecursionError, log))"
| "run_from G g (Suc steps) n state log =
     (if n = END then (Inr state, log)
      else
        (case call_node G n state log of
           (Inl e, log') \<Rightarrow> (Inl e, log')
         | (Inr update, log') \<Rightarrow>
             (case successor g n (state ++ update) of
                Inl e \<Rightarrow> (Inl e, log')
              | Inr n' \<Rightarrow> run_from G g steps n' (state ++ update) log')))"

text \<open>The invocation of the compiled graph: the run starts at the node after \<open>START\<close>.\<close>

definition ainvoke ::
  "globals \<Rightarrow> StateGraph \<Rightarrow> State \<Rightarrow> call list \<Rightarrow> (exn + State) \<times> call list" where
  "ainvoke G g input log =
     (case successor g START input of
        Inl e \<Rightarrow> (Inl e, log)
      | Inr n \<Rightarrow> run_from G g recursion_limit n input log)"

definition fallback_statement :: "string \<Rightarrow> string" where
  "fallback_statement topic =
     ''FOR IMMEDIATE RELEASE\<newline>\<newline>        [Company Name] Announces Exciting Development in '' @ topic @
     ''\<newline>        ...''"

text \<open>
  \<open>generate_pr_statement\<close>. The body of its \<open>try\<close>: the check of \<open>_workflow_graph\<close>, the
  invocation of the workflow on \<open>{"topic": topic}\<close>, and the read of
  \<open>result["pr_statement"]\<close>.
\<close>

definition generate_pr_statement_try ::
  "globals \<Rightarrow> string \<Rightarrow> call list \<Rightarrow> (exn + string) \<times> call list" where
  "generate_pr_statement_try G topic log =
     (case workflow_graph G of
        None \<Rightarrow>
          (Inl (RuntimeError
                  ''Workflow not initialized. Call initialize_pr_generator() first.''), log)
      | Some g \<Rightarrow>
          (case ainvoke G g [''topic'' \<mapsto> topic] log of
             (Inl e, log') \<Rightarrow> (Inl e, log')
           | (Inr result, log') \<Rightarrow>
               (case result ''pr_statement'' of
                  None \<Rightarrow> (Inl (KeyError ''pr_statement''), log')
                | Some s \<Rightarrow> (Inr s, log'))))"

text \<open>
  The whole function: \<open>except Exception as api_error\<close> catches whatever the body raises,
  logs a warning and returns the fallback statement.
\<close>

definition generate_pr_statement ::
  "globals \<Rightarrow> string \<Rightarrow> call list \<Rightarrow> (exn + string) \<times> call list" where
  "generate_pr_statement G topic log =
     (case generate_pr_statement_try G topic log of
        (Inl api_error, log') \<Rightarrow> (Inr (fallback_statement topic), log')
      | (Inr statement, log') \<Rightarrow> (Inr statement, log'))"

section \<open>main.py\<close>

text \<open>The service process: the generator module's globals and \<open>_pr_generator_initialized\<close>.\<close>

record app =
  generator :: globals
  pr_generator_initialized :: bool

definition initial_app :: app where
  "initial_app =
     \<lparr>generator = \<lparr>llm = None, evaluator = None, workflow_graph = None\<rparr>,
      pr_generator_initialized = False\<rparr>"

text \<open>
  \<open>lifespan\<close>, up to its \<open>yield\<close>: an exception of the initialisation is logged and
  re-raised, and the flag is set only after the initialisation has returned.
\<close>

definition lifespan :: "client_library \<Rightarrow> (string \<rightharpoonup> string) \<Rightarrow> app \<Rightarrow> (exn + unit) \<times> app" where
  "lifespan L env A =
     (case initialize_pr_generator L env (generator A) of
        (Inl e, G') \<Rightarrow> (Inl e, A\<lparr>generator := G'\<rparr>)
      | (Inr u, G') \<Rightarrow> (Inr (), A\<lparr>generator := G', pr_generator_initialized := True\<rparr>))"

datatype http_response =
    Response PRStatementResponse
  | HTTPException nat string

text \<open>
  \<open>str(e)\<close>: the message of the exception; for \<open>GraphRecursionError\<close> the head of the
  runtime's message.
\<close>

fun str :: "exn \<Rightarrow> string" where
  "str (ValueError m) = m"
| "str (RuntimeError m) = m"
| "str (KeyError k) = [CHR 0x27] @ k @ [CHR 0x27]"
| "str (ProviderException m) = m"
| "str (ValidationError m) = m"
| "str GraphRecursionError = ''Recursion limit of 25 reached without hitting a stop condition.''"

definition generate_pr_statement_endpoint ::
  "app \<Rightarrow> string \<Rightarrow> call list \<Rightarrow> http_response \<times> call list" where
  "generate_pr_statement_endpoint A topic log =
     (if \<not> pr_generator_initialized A
      then (HTTPException 503 ''PR Generator Service is not available'', log)
      else
        (case generate_pr_statement (generator A) topic log of
           (Inl e, log') \<Rightarrow>
             (HTTPException 500 (''Failed to generate PR statement: '' @ str e), log')
         | (Inr statement, log') \<Rightarrow>
             (Response \<lparr>pr_statement = statement, status = ''success'',
                        message = ''PR statement generated successfully''\<rparr>, log')))"

text \<open>
  The requests of a started process, one after the other. A body that fails the request
  model's validation is answered with status 422 before the endpoint function runs.
\<close>

fun handle_requests ::
  "app \<Rightarrow> string list \<Rightarrow> call list \<Rightarrow> http_response list \<times> call list" where
  "handle_requests A [] log = ([], log)"
| "handle_requests A (topic # topics) log =
     (if \<not> PRStatementRequest_valid topic
      then (case handle_requests A topics log of
              (rs, log') \<Rightarrow> (HTTPException 422 ''validation error'' # rs, log'))
      else (case generate_pr_statement_endpoint A topic log of
              (r, log') \<Rightarrow>
                (case handle_requests A topics log' of
                   (rs, log'') \<Rightarrow> (r # rs, log''))))"

text \<open>
  A process: the start-up part of \<open>lifespan\<close> runs first; when it raises, the process ends
  with that exception and no request is handled; otherwise the requests are served.
\<close>

definition serve ::
  "client_library \<Rightarrow> (string \<rightharpoonup> string) \<Rightarrow> string list \<Rightarrow> call list
     \<Rightarrow> (exn + http_response list) \<times> call list" where
  "serve L env topics log =
     (case lifespan L env initial_app of
        (Inl e, A) \<Rightarrow> (Inl e, log)
      | (Inr u, A) \<Rightarrow>
          (case handle_requests A topics log of
             (rs, log') \<Rightarrow> (Inr rs, log')))"

section \<open>Auxiliary definitions for the statements\<close>

text \<open>
  The text that \<open>generate_pr_statement_node\<close> sends to the model, as a function of the
  topic and of the feedback entry of the state.
\<close>

definition request_sent :: "string \<Rightarrow> string option \<Rightarrow> string" where
  "request_sent topic fb =
     (case fb of
        None \<Rightarrow> generation_prompt topic
      | Some f \<Rightarrow> if f \<noteq> [] then generation_prompt topic @ feedback_clause f
                 else generation_prompt topic)"

text \<open>The globals after a successful initialisation with the handles \<open>l\<close> and \<open>ev\<close>.\<close>

definition initialized :: "llm_handle \<Rightarrow> evaluator_handle \<Rightarrow> globals" where
  "initialized l ev = \<lparr>llm = Some l, evaluator = Some ev, workflow_graph = Some compiled_workflow\<rparr>"

text \<open>Scripted handles, for the concrete scenarios.\<close>

definition llm_statement_A :: llm_handle where
  "llm_statement_A n p = Inr ''Statement A''"

definition llm_draft_then_final :: llm_handle where
  "llm_draft_then_final n p = (if n = 0 then Inr ''Draft'' else Inr ''Final'')"

definition llm_unreachable :: llm_handle where
  "llm_unreachable n p = Inl (ProviderException ''Connection error.'')"


definition evaluator_good :: evaluator_handle where
  "evaluator_good n p = Inr \<lparr>grade = GOOD, feedback = []\<rparr>"

definition evaluator_rejects_once :: evaluator_handle where
  "evaluator_rejects_once n p =
     (if n = 0 then Inr \<lparr>grade = NEEDS_IMPROVEMENT, feedback = ''add benefits''\<rparr>
      else Inr \<lparr>grade = GOOD, feedback = []\<rparr>)"

definition evaluator_never_good :: evaluator_handle where
  "evaluator_never_good n p = Inr \<lparr>grade = NEEDS_IMPROVEMENT, feedback = ''add benefits''\<rparr>"

definition evaluator_unreachable :: evaluator_handle where
  "evaluator_unreachable n p = Inl (ProviderException ''Connection error.'')"

text \<open>A model whose structured answer has the grade \<open>excellent\<close>, and one that answers \<open>good\<close>.\<close>

definition model_answers_excellent :: structured_model where
  "model_answers_excellent n p = Inr (''excellent'', ''add benefits'')"

definition model_answers_good :: structured_model where
  "model_answers_good n p = Inr (''good'', [])"

definition scripted_ChatGroq :: "(string \<rightharpoonup> string) \<Rightarrow> string \<Rightarrow> exn + llm_handle" where
  "scripted_ChatGroq env model_name = Inr llm_statement_A"

definition scripted_with_structured_output :: "llm_handle \<Rightarrow> exn + structured_model" where
  "scripted_with_structured_output l = Inr model_answers_good"

definition scripted_library :: client_library where
  "scripted_library =
     \<lparr>ChatGroq = scripted_ChatGroq, with_structured_output = scripted_with_structured_output\<rparr>"



section \<open>Basic facts about the log and the run of the compiled workflow\<close>

lemma llm_calls_append: "llm_calls (xs @ ys) = llm_calls xs @ llm_calls ys"
  by (induction xs rule: llm_calls.induct) simp_all

lemma evaluator_calls_append:
  "evaluator_calls (xs @ ys) = evaluator_calls xs @ evaluator_calls ys"
  by (induction xs rule: evaluator_calls.induct) simp_all

lemma literal_eq_good: "literal g = ''good'' \<longleftrightarrow> g = GOOD"
  by (cases g) simp_all

lemma recursion_limit_Suc: "recursion_limit = Suc (Suc (Suc (Suc 21)))"
  by (simp add: recursion_limit_def)

lemma run_from_END: "run_from G g steps END s log = (Inr s, log)"
  by (cases steps) simp_all

lemma run_from_out_of_steps:
  "n \<noteq> END \<Longrightarrow> run_from G g 0 n s log = (Inl GraphRecursionError, log)"
  by simp

lemma ainvoke_compiled_workflow:
  "ainvoke G compiled_workflow input log =
     run_from G compiled_workflow recursion_limit Generate_PR_Statement input log"
  by (simp add: ainvoke_def successor_def compiled_workflow_def)

lemma run_from_Generate:
  "run_from G compiled_workflow (Suc steps) Generate_PR_Statement s log =
     (case generate_pr_statement_node G s log of
        (Inl e, log') \<Rightarrow> (Inl e, log')
      | (Inr update, log') \<Rightarrow>
          run_from G compiled_workflow steps Evaluate_PR_Statement (s ++ update) log')"
  by (simp add: successor_def compiled_workflow_def split: prod.splits sum.splits)

lemma run_from_Evaluate:
  "run_from G compiled_workflow (Suc steps) Evaluate_PR_Statement s log =
     (case evaluate_pr_statement_node G s log of
        (Inl e, log') \<Rightarrow> (Inl e, log')
      | (Inr update, log') \<Rightarrow>
          (case (s ++ update) ''grade'' of
             None \<Rightarrow> (Inl (KeyError ''grade''), log')
           | Some g \<Rightarrow>
               if g = ''good'' then (Inr (s ++ update), log')
               else run_from G compiled_workflow steps Generate_PR_Statement (s ++ update) log'))"
  by (auto simp: successor_def compiled_workflow_def route_statement_def run_from_END
        split: prod.splits sum.splits option.splits)

declare run_from.simps [simp del]

lemma generate_node_returns:
  assumes "llm G = Some l" and "s ''topic'' = Some topic"
  shows "generate_pr_statement_node G s log =
           (case l (length (llm_calls log)) (request_sent topic (s ''feedback'')) of
              Inl e \<Rightarrow> (Inl e, log @ [LLM_invoke (request_sent topic (s ''feedback''))])
            | Inr content \<Rightarrow>
                (Inr [''pr_statement'' \<mapsto> content],
                 log @ [LLM_invoke (request_sent topic (s ''feedback''))]))"
  unfolding generate_pr_statement_node_def request_sent_def Let_def
  using assms by simp

lemma evaluate_node_returns:
  assumes "evaluator G = Some ev" and "s ''pr_statement'' = Some statement"
  shows "evaluate_pr_statement_node G s log =
           (case ev (length (evaluator_calls log)) (evaluation_prompt statement) of
              Inl e \<Rightarrow> (Inl e, log @ [Evaluator_invoke (evaluation_prompt statement)])
            | Inr decision \<Rightarrow>
                (Inr [''grade'' \<mapsto> literal (grade decision), ''feedback'' \<mapsto> feedback decision],
                 log @ [Evaluator_invoke (evaluation_prompt statement)]))"
  using assms by (simp add: evaluate_pr_statement_node_def Let_def)

lemma generate_node_Inr:
  assumes "generate_pr_statement_node G s log = (Inr update, log')"
  shows "\<exists>l t content. llm G = Some l \<and> s ''topic'' = Some t
           \<and> l (length (llm_calls log)) (request_sent t (s ''feedback'')) = Inr content
           \<and> update = [''pr_statement'' \<mapsto> content]
           \<and> log' = log @ [LLM_invoke (request_sent t (s ''feedback''))]"
proof -
  obtain l where l: "llm G = Some l"
    using assms by (cases "llm G") (simp_all add: generate_pr_statement_node_def)
  obtain t where t: "s ''topic'' = Some t"
    using assms l by (cases "s ''topic''") (simp_all add: generate_pr_statement_node_def)
  show ?thesis
    using assms l t
    by (auto simp: generate_node_returns [where l = l and topic = t] split: sum.splits)
qed

lemma evaluate_node_Inr:
  assumes "evaluate_pr_statement_node G s log = (Inr update, log')"
  shows "\<exists>ev st d. evaluator G = Some ev \<and> s ''pr_statement'' = Some st
           \<and> ev (length (evaluator_calls log)) (evaluation_prompt st) = Inr d
           \<and> update = [''grade'' \<mapsto> literal (grade d), ''feedback'' \<mapsto> feedback d]
           \<and> log' = log @ [Evaluator_invoke (evaluation_prompt st)]"
proof -
  obtain ev where ev: "evaluator G = Some ev"
    using assms by (cases "evaluator G") (simp_all add: evaluate_pr_statement_node_def)
  obtain st where st: "s ''pr_statement'' = Some st"
    using assms ev by (cases "s ''pr_statement''") (simp_all add: evaluate_pr_statement_node_def)
  show ?thesis
    using assms ev st
    by (auto simp: evaluate_node_returns [where ev = ev and statement = st] split: sum.splits)
qed

lemma evaluate_node_ignores_stored_verdict:
  "evaluate_pr_statement_node G (s(''feedback'' := old)) log = evaluate_pr_statement_node G s log"
  by (cases "evaluator G") (simp_all add: evaluate_pr_statement_node_def)

text \<open>A rejected evaluation: the run goes on at the generation node with the new verdict.\<close>

lemma evaluation_rejected_step:
  assumes "evaluator G = Some ev" and "s ''pr_statement'' = Some st"
    and "ev (length (evaluator_calls log)) (evaluation_prompt st) = Inr d"
    and "grade d \<noteq> GOOD"
  shows "run_from G compiled_workflow (Suc steps) Evaluate_PR_Statement s log =
           run_from G compiled_workflow steps Generate_PR_Statement
             (s(''grade'' \<mapsto> literal (grade d), ''feedback'' \<mapsto> feedback d))
             (log @ [Evaluator_invoke (evaluation_prompt st)])"
proof -
  have "evaluate_pr_statement_node G s log =
          (Inr [''grade'' \<mapsto> literal (grade d), ''feedback'' \<mapsto> feedback d],
           log @ [Evaluator_invoke (evaluation_prompt st)])"
    using assms(1-3) by (simp add: evaluate_node_returns [where ev = ev and statement = st])
  then show ?thesis
    using assms(4) by (simp add: run_from_Evaluate literal_eq_good)
qed

text \<open>
  A structured answer whose grade is neither literal does not validate: the \<open>invoke\<close> of
  the evaluator handle raises.
\<close>

lemma off_schema_answer_raises:
  assumes "raw n p = Inr (g, fb)" and "g \<notin> set grade_literals"
  shows "validated_as_Feedback raw n p = Inl (ValidationError g)"
  using assms by (simp add: validated_as_Feedback_def Feedback_validate_def grade_literals_def)

text \<open>A successful initialisation leaves the globals that \<open>initialized\<close> describes.\<close>

lemma initialize_pr_generator_initialized:
  assumes "env ''GROQ_API_KEY'' = Some key" and "key \<noteq> []"
    and "ChatGroq L env ''meta-llama/llama-4-scout-17b-16e-instruct'' = Inr l"
    and "with_structured_output L l = Inr raw"
  shows "initialize_pr_generator L env G = (Inr (), initialized l (validated_as_Feedback raw))"
proof -
  have "env(''GROQ_API_KEY'' \<mapsto> key) = env"
    using assms(1) by (rule map_upd_triv)
  then show ?thesis
    using assms
    by (simp add: initialize_pr_generator_def initialize_llm_def build_workflow_def initialized_def)
qed

subsection \<open>The topic entry along a run\<close>

lemma node_update_keeps_topic:
  "generate_pr_statement_node G s log = (Inr update, log') \<Longrightarrow> update ''topic'' = None"
  "evaluate_pr_statement_node G s log = (Inr update, log') \<Longrightarrow> update ''topic'' = None"
  by (auto dest!: generate_node_Inr evaluate_node_Inr)

lemma call_node_keeps_topic:
  "call_node G n s log = (Inr update, log') \<Longrightarrow> (s ++ update) ''topic'' = s ''topic''"
  by (cases n) (auto simp: map_add_def dest: node_update_keeps_topic)

lemma run_from_keeps_topic:
  "run_from G g steps n s log = (Inr s', log') \<Longrightarrow> s' ''topic'' = s ''topic''"
proof (induction steps arbitrary: n s log)
  case 0
  then show ?case by (simp add: run_from.simps split: if_splits)
next
  case (Suc steps)
  show ?case
  proof (cases "n = END")
    case True
    with Suc.prems show ?thesis by (simp add: run_from_END)
  next
    case False
    obtain r log1 where c: "call_node G n s log = (r, log1)"
      by (cases "call_node G n s log")
    show ?thesis
    proof (cases r)
      case (Inl e)
      with Suc.prems False c show ?thesis by (simp add: run_from.simps)
    next
      case (Inr update)
      show ?thesis
      proof (cases "successor g n (s ++ update)")
        case (Inl e)
        with Suc.prems False c Inr show ?thesis by (simp add: run_from.simps)
      next
        case succ: (Inr n')
        with Suc.prems False c Inr
        have "run_from G g steps n' (s ++ update) log1 = (Inr s', log')"
          by (simp add: run_from.simps)
        then have "s' ''topic'' = (s ++ update) ''topic''"
          by (rule Suc.IH)
        then show ?thesis
          using call_node_keeps_topic [of G n s log update log1] c Inr by simp
      qed
    qed
  qed
qed

subsection \<open>The statement that a run returns\<close>




subsection \<open>An evaluator that never accepts\<close>

text \<open>
  With an evaluator that answers \<open>needs improvement\<close> to every call and a generator that
  always answers, the run uses up the recursion limit: after thirteen generation calls and
  twelve evaluation calls it ends with \<open>GraphRecursionError\<close>, and \<open>generate_pr_statement\<close>
  returns the fallback statement.
\<close>

lemma never_accepted_run_hits_recursion_limit:
  "\<exists>log'. generate_pr_statement (initialized llm_statement_A evaluator_never_good) ''X'' [] =
            (Inr (fallback_statement ''X''), log')
         \<and> generate_pr_statement_try (initialized llm_statement_A evaluator_never_good) ''X'' [] =
            (Inl GraphRecursionError, log')
         \<and> length (llm_calls log') = 13 \<and> length (evaluator_calls log') = 12"
  by (simp add: generate_pr_statement_def generate_pr_statement_try_def initialized_def
        ainvoke_compiled_workflow recursion_limit_def eval_nat_numeral run_from_Generate
        run_from_Evaluate generate_pr_statement_node_def evaluate_pr_statement_node_def
        run_from_out_of_steps llm_statement_A_def evaluator_never_good_def)

subsection \<open>The calls of a run\<close>



section \<open>The claims\<close>

subsection \<open>C1: a provider exception during the loop\<close>

text \<open>
  A generator that raises on its first call: \<open>generate_pr_statement\<close> does not raise, it
  returns the fallback statement; the generation call is the only call made.
\<close>

theorem provider_error_is_not_propagated:
  "generate_pr_statement (initialized llm_unreachable evaluator_good) ''X'' [] =
     (Inr (fallback_statement ''X''), [LLM_invoke (generation_prompt ''X'')])"
  by (simp add: generate_pr_statement_def generate_pr_statement_try_def initialized_def
        ainvoke_compiled_workflow recursion_limit_def eval_nat_numeral run_from_Generate
        generate_pr_statement_node_def llm_unreachable_def)

text \<open>
  C1, as the code has it. At any round within the recursion limit, when the generator call
  (first conjunct) or the evaluator call (second conjunct) raises, the run of the workflow
  ends at once with that exception, the failing call being the last one logged. When the
  generator raises on the first call of a run, the workflow ends with that exception after
  this single call, the evaluator is not invoked, and \<open>generate_pr_statement\<close> returns the
  fallback statement of the topic (third conjunct). Whatever exception ends the workflow,
  \<open>generate_pr_statement\<close> catches it and returns the fallback statement instead of raising
  (fourth conjunct).
\<close>

theorem provider_error_aborts_run:
  "(llm G = Some l \<and> s ''topic'' = Some t \<and>
      l (length (llm_calls log)) (request_sent t (s ''feedback'')) = Inl e \<longrightarrow>
      run_from G compiled_workflow (Suc steps) Generate_PR_Statement s log =
        (Inl e, log @ [LLM_invoke (request_sent t (s ''feedback''))]))
   \<and> (evaluator G = Some ev \<and> s ''pr_statement'' = Some st \<and>
      ev (length (evaluator_calls log)) (evaluation_prompt st) = Inl e \<longrightarrow>
      run_from G compiled_workflow (Suc steps) Evaluate_PR_Statement s log =
        (Inl e, log @ [Evaluator_invoke (evaluation_prompt st)]))
   \<and> (llm G = Some l \<and> workflow_graph G = Some compiled_workflow \<and>
      l (length (llm_calls log)) (generation_prompt topic) = Inl e \<longrightarrow>
      ainvoke G compiled_workflow [''topic'' \<mapsto> topic] log =
        (Inl e, log @ [LLM_invoke (generation_prompt topic)]) \<and>
      generate_pr_statement G topic log =
        (Inr (fallback_statement topic), log @ [LLM_invoke (generation_prompt topic)]))
   \<and> (workflow_graph G = Some g \<and> ainvoke G g [''topic'' \<mapsto> topic] log = (Inl e, log') \<longrightarrow>
      generate_pr_statement G topic log = (Inr (fallback_statement topic), log'))"
proof (intro conjI impI)
  assume a: "llm G = Some l \<and> s ''topic'' = Some t \<and>
      l (length (llm_calls log)) (request_sent t (s ''feedback'')) = Inl e"
  then have "generate_pr_statement_node G s log =
               (Inl e, log @ [LLM_invoke (request_sent t (s ''feedback''))])"
    by (simp add: generate_node_returns [where l = l and topic = t])
  then show "run_from G compiled_workflow (Suc steps) Generate_PR_Statement s log =
        (Inl e, log @ [LLM_invoke (request_sent t (s ''feedback''))])"
    by (simp add: run_from_Generate)
next
  assume a: "evaluator G = Some ev \<and> s ''pr_statement'' = Some st \<and>
      ev (length (evaluator_calls log)) (evaluation_prompt st) = Inl e"
  then have "evaluate_pr_statement_node G s log =
               (Inl e, log @ [Evaluator_invoke (evaluation_prompt st)])"
    by (simp add: evaluate_node_returns [where ev = ev and statement = st])
  then show "run_from G compiled_workflow (Suc steps) Evaluate_PR_Statement s log =
        (Inl e, log @ [Evaluator_invoke (evaluation_prompt st)])"
    by (simp add: run_from_Evaluate)
next
  assume a: "llm G = Some l \<and> workflow_graph G = Some compiled_workflow \<and>
      l (length (llm_calls log)) (generation_prompt topic) = Inl e"
  then have "generate_pr_statement_node G [''topic'' \<mapsto> topic] log =
               (Inl e, log @ [LLM_invoke (generation_prompt topic)])"
    by (simp add: generate_node_returns [where l = l and topic = topic] request_sent_def)
  then show run: "ainvoke G compiled_workflow [''topic'' \<mapsto> topic] log =
        (Inl e, log @ [LLM_invoke (generation_prompt topic)])"
    by (simp add: ainvoke_compiled_workflow recursion_limit_def eval_nat_numeral run_from_Generate)
  show "generate_pr_statement G topic log =
        (Inr (fallback_statement topic), log @ [LLM_invoke (generation_prompt topic)])"
    using a run by (simp add: generate_pr_statement_def generate_pr_statement_try_def)
next
  assume "workflow_graph G = Some g \<and> ainvoke G g [''topic'' \<mapsto> topic] log = (Inl e, log')"
  then show "generate_pr_statement G topic log = (Inr (fallback_statement topic), log')"
    by (simp add: generate_pr_statement_def generate_pr_statement_try_def)
qed

text \<open>
  The theorem at concrete inputs: an evaluator that raises in the first round, after a
  successful generation, and a generator that raises on the first call.
\<close>

theorem provider_error_aborts_run_witness:
  "run_from (initialized llm_statement_A evaluator_unreachable) compiled_workflow 24
     Evaluate_PR_Statement [''topic'' \<mapsto> ''X'', ''pr_statement'' \<mapsto> ''Statement A'']
     [LLM_invoke (generation_prompt ''X'')] =
     (Inl (ProviderException ''Connection error.''),
      [LLM_invoke (generation_prompt ''X''),
       Evaluator_invoke (evaluation_prompt ''Statement A'')])
   \<and> run_from (initialized llm_unreachable evaluator_good) compiled_workflow 25
     Generate_PR_Statement [''topic'' \<mapsto> ''X''] [] =
     (Inl (ProviderException ''Connection error.''), [LLM_invoke (generation_prompt ''X'')])
   \<and> ainvoke (initialized llm_unreachable evaluator_good) compiled_workflow
       [''topic'' \<mapsto> ''X''] [] =
     (Inl (ProviderException ''Connection error.''), [LLM_invoke (generation_prompt ''X'')])
   \<and> generate_pr_statement (initialized llm_unreachable evaluator_good) ''X'' [] =
     (Inr (fallback_statement ''X''), [LLM_invoke (generation_prompt ''X'')])"
proof -
  have n24: "(24::nat) = Suc 23" and n25: "(25::nat) = Suc 24"
    by simp_all
  show ?thesis
    unfolding n24 n25
    using provider_error_aborts_run
      [of "initialized llm_statement_A evaluator_unreachable" llm_statement_A
          "[''topic'' \<mapsto> ''X'', ''pr_statement'' \<mapsto> ''Statement A'']" "''X''"
          "[LLM_invoke (generation_prompt ''X'')]" "ProviderException ''Connection error.''"
          23 evaluator_unreachable "''Statement A''" "''X''" compiled_workflow "[]"]
      provider_error_aborts_run
      [of "initialized llm_unreachable evaluator_good" llm_unreachable
          "[''topic'' \<mapsto> ''X'']" "''X''" "[]" "ProviderException ''Connection error.''"
          24 evaluator_good "''Statement A''" "''X''" compiled_workflow
          "[LLM_invoke (generation_prompt ''X'')]"]
    by (simp add: initialized_def llm_unreachable_def evaluator_unreachable_def request_sent_def)
qed

subsection \<open>C2: what a run returns\<close>




subsection \<open>C3: acceptance in the first round\<close>

text \<open>
  C3. When the workflow is initialised, the first generation returns a statement and the
  first evaluation of it returns the grade \<open>good\<close>, the run makes exactly one generation
  call and one evaluation call (the log grows by exactly these two invocations), and
  \<open>generate_pr_statement\<close> returns the text of that first generation unchanged.
\<close>

theorem single_pass_when_first_grade_good:
  assumes "llm G = Some l" and "evaluator G = Some ev"
    and "workflow_graph G = Some compiled_workflow"
    and "l (length (llm_calls log)) (generation_prompt topic) = Inr statement"
    and "ev (length (evaluator_calls log)) (evaluation_prompt statement) = Inr decision"
    and "grade decision = GOOD"
  shows "generate_pr_statement G topic log =
           (Inr statement,
            log @ [LLM_invoke (generation_prompt topic),
                   Evaluator_invoke (evaluation_prompt statement)])"
proof -
  let ?s0 = "[''topic'' \<mapsto> topic]"
  let ?log1 = "log @ [LLM_invoke (generation_prompt topic)]"
  have gen: "generate_pr_statement_node G ?s0 log = (Inr [''pr_statement'' \<mapsto> statement], ?log1)"
    using assms(1,4)
    by (simp add: generate_node_returns [where l = l and topic = topic] request_sent_def)
  have ev: "evaluate_pr_statement_node G (?s0 ++ [''pr_statement'' \<mapsto> statement]) ?log1 =
              (Inr [''grade'' \<mapsto> literal (grade decision), ''feedback'' \<mapsto> feedback decision],
               ?log1 @ [Evaluator_invoke (evaluation_prompt statement)])"
    using assms(2,5)
    by (simp add: evaluate_node_returns [where ev = ev and statement = statement]
          evaluator_calls_append)
  have "ainvoke G compiled_workflow ?s0 log =
          (Inr (?s0 ++ [''pr_statement'' \<mapsto> statement]
                  ++ [''grade'' \<mapsto> literal (grade decision), ''feedback'' \<mapsto> feedback decision]),
           ?log1 @ [Evaluator_invoke (evaluation_prompt statement)])"
    unfolding ainvoke_compiled_workflow recursion_limit_Suc
    apply (subst run_from_Generate)
    apply (simp only: gen prod.case sum.case)
    apply (subst run_from_Evaluate)
    apply (simp only: ev prod.case sum.case)
    using assms(6) apply simp
    done
  then show ?thesis
    using assms(3) by (simp add: generate_pr_statement_def generate_pr_statement_try_def)
qed

text \<open>
  The scenario of the specification: topic \<open>AI-powered chatbot launch\<close>, the generator
  answers \<open>Statement A\<close>, the evaluator answers \<open>good\<close> with empty feedback.
\<close>

theorem single_pass_scenario:
  "generate_pr_statement (initialized llm_statement_A evaluator_good)
     ''AI-powered chatbot launch'' [] =
   (Inr ''Statement A'',
    [LLM_invoke (generation_prompt ''AI-powered chatbot launch''),
     Evaluator_invoke (evaluation_prompt ''Statement A'')])"
  using single_pass_when_first_grade_good
    [of "initialized llm_statement_A evaluator_good" llm_statement_A evaluator_good "[]"
        "''AI-powered chatbot launch''" "''Statement A''" "\<lparr>grade = GOOD, feedback = []\<rparr>"]
  by (simp add: initialized_def llm_statement_A_def evaluator_good_def)

subsection \<open>C4: one rejection, then acceptance\<close>

text \<open>
  C4. When the workflow is initialised, the first evaluation answers \<open>needs improvement\<close>
  and the second answers \<open>good\<close>, the run makes exactly two generation calls and two
  evaluation calls, in turn, and returns the second generation. The request of the second
  generation call is the one built from the feedback of the first evaluation: it ends
  with that feedback text.
\<close>

theorem second_pass_uses_first_feedback:
  assumes "llm G = Some l" and "evaluator G = Some ev"
    and "workflow_graph G = Some compiled_workflow"
    and "l (length (llm_calls log)) (generation_prompt topic) = Inr draft"
    and "ev (length (evaluator_calls log)) (evaluation_prompt draft) = Inr d1"
    and "grade d1 = NEEDS_IMPROVEMENT"
    and "l (Suc (length (llm_calls log))) (request_sent topic (Some (feedback d1))) = Inr final"
    and "ev (Suc (length (evaluator_calls log))) (evaluation_prompt final) = Inr d2"
    and "grade d2 = GOOD"
  shows "generate_pr_statement G topic log =
           (Inr final,
            log @ [LLM_invoke (generation_prompt topic),
                   Evaluator_invoke (evaluation_prompt draft),
                   LLM_invoke (request_sent topic (Some (feedback d1))),
                   Evaluator_invoke (evaluation_prompt final)])
         \<and> (\<exists>before. request_sent topic (Some (feedback d1)) = before @ feedback d1)"
proof -
  let ?s0 = "[''topic'' \<mapsto> topic]"
  let ?p2 = "request_sent topic (Some (feedback d1))"
  let ?log1 = "log @ [LLM_invoke (generation_prompt topic)]"
  let ?log2 = "?log1 @ [Evaluator_invoke (evaluation_prompt draft)]"
  let ?log3 = "?log2 @ [LLM_invoke ?p2]"
  let ?log4 = "?log3 @ [Evaluator_invoke (evaluation_prompt final)]"
  let ?s1 = "?s0 ++ [''pr_statement'' \<mapsto> draft]"
  let ?s2 = "?s1 ++ [''grade'' \<mapsto> literal (grade d1), ''feedback'' \<mapsto> feedback d1]"
  let ?s3 = "?s2 ++ [''pr_statement'' \<mapsto> final]"
  let ?s4 = "?s3 ++ [''grade'' \<mapsto> literal (grade d2), ''feedback'' \<mapsto> feedback d2]"
  have gen1: "generate_pr_statement_node G ?s0 log = (Inr [''pr_statement'' \<mapsto> draft], ?log1)"
    using assms(1,4)
    by (simp add: generate_node_returns [where l = l and topic = topic] request_sent_def)
  have ev1: "evaluate_pr_statement_node G ?s1 ?log1 =
               (Inr [''grade'' \<mapsto> literal (grade d1), ''feedback'' \<mapsto> feedback d1], ?log2)"
    using assms(2,5)
    by (simp add: evaluate_node_returns [where ev = ev and statement = draft]
          evaluator_calls_append)
  have g1: "?s2 ''grade'' = Some ''needs improvement''"
    using assms(6) by simp
  have gen2: "generate_pr_statement_node G ?s2 ?log2 = (Inr [''pr_statement'' \<mapsto> final], ?log3)"
    using assms(1,7)
    by (simp add: generate_node_returns [where l = l and topic = topic] llm_calls_append)
  have ev2: "evaluate_pr_statement_node G ?s3 ?log3 =
               (Inr [''grade'' \<mapsto> literal (grade d2), ''feedback'' \<mapsto> feedback d2], ?log4)"
    using assms(2,8)
    by (simp add: evaluate_node_returns [where ev = ev and statement = final]
          evaluator_calls_append)
  have g2: "?s4 ''grade'' = Some ''good''"
    using assms(9) by simp
  have "ainvoke G compiled_workflow ?s0 log = (Inr ?s4, ?log4)"
    unfolding ainvoke_compiled_workflow recursion_limit_Suc
    apply (subst run_from_Generate)
    apply (simp only: gen1 prod.case sum.case)
    apply (subst run_from_Evaluate)
    apply (simp only: ev1 prod.case sum.case g1 option.case)
    apply (subst run_from_Generate)
    apply (simp only: gen2 prod.case sum.case)
    apply (subst run_from_Evaluate)
    apply (simp only: ev2 prod.case sum.case g2 option.case)
    apply simp
    done
  then have "generate_pr_statement G topic log = (Inr final, ?log4)"
    using assms(3) by (simp add: generate_pr_statement_def generate_pr_statement_try_def)
  moreover have "\<exists>before. ?p2 = before @ feedback d1"
    by (simp add: request_sent_def feedback_clause_def)
  ultimately show ?thesis by simp
qed

text \<open>
  The scenario of the specification: topic \<open>X\<close>, the generator answers \<open>Draft\<close> and then
  \<open>Final\<close>, the evaluator answers \<open>needs improvement\<close> with the feedback \<open>add benefits\<close> and
  then \<open>good\<close>.
\<close>

theorem second_pass_scenario:
  "generate_pr_statement (initialized llm_draft_then_final evaluator_rejects_once) ''X'' [] =
     (Inr ''Final'',
      [LLM_invoke (generation_prompt ''X''),
       Evaluator_invoke (evaluation_prompt ''Draft''),
       LLM_invoke (generation_prompt ''X'' @
                   '' Also take provided feedback into account: add benefits''),
       Evaluator_invoke (evaluation_prompt ''Final'')])"
  using second_pass_uses_first_feedback
    [of "initialized llm_draft_then_final evaluator_rejects_once" llm_draft_then_final
        evaluator_rejects_once "[]" "''X''" "''Draft''"
        "\<lparr>grade = NEEDS_IMPROVEMENT, feedback = ''add benefits''\<rparr>" "''Final''"
        "\<lparr>grade = GOOD, feedback = []\<rparr>"]
  by (simp add: initialized_def llm_draft_then_final_def evaluator_rejects_once_def
        request_sent_def feedback_clause_def)

subsection \<open>C5: a grade outside the two literals\<close>

text \<open>
  A model whose structured answer has the grade \<open>excellent\<close>, which is neither of the two
  literals: the evaluator call is the last call of the run, and \<open>generate_pr_statement\<close>
  does not raise, it returns the fallback statement.
\<close>

theorem off_schema_grade_gives_fallback:
  "''excellent'' \<notin> set grade_literals \<and>
   model_answers_excellent 0 (evaluation_prompt ''Statement A'') =
     Inr (''excellent'', ''add benefits'') \<and>
   generate_pr_statement
     (initialized llm_statement_A (validated_as_Feedback model_answers_excellent)) ''X'' [] =
     (Inr (fallback_statement ''X''),
      [LLM_invoke (generation_prompt ''X''),
       Evaluator_invoke (evaluation_prompt ''Statement A'')])"
  by (simp add: grade_literals_def model_answers_excellent_def generate_pr_statement_def
        generate_pr_statement_try_def initialized_def ainvoke_compiled_workflow
        recursion_limit_def eval_nat_numeral run_from_Generate run_from_Evaluate
        generate_pr_statement_node_def evaluate_pr_statement_node_def llm_statement_A_def
        validated_as_Feedback_def Feedback_validate_def)

text \<open>
  C5, as the code has it. When the structured answer of the model to an evaluation has a
  grade that is neither \<open>good\<close> nor \<open>needs improvement\<close>, the \<open>invoke\<close> of the evaluator
  handle raises the validation error; at any round within the recursion limit the run of
  the workflow ends at once with that exception, the evaluator call being the last call
  made, so no further iteration is performed (first and second conjunct). When this
  happens in the first round, the workflow ends with the exception after one generation
  and one evaluation call and \<open>generate_pr_statement\<close> returns the fallback statement of
  the topic instead of raising (third conjunct).
\<close>

theorem off_schema_grade_aborts_run:
  assumes "evaluator G = Some (validated_as_Feedback raw)"
    and "g \<notin> set grade_literals"
  shows "(raw n p = Inr (g, fb) \<longrightarrow> validated_as_Feedback raw n p = Inl (ValidationError g))
   \<and> (s ''pr_statement'' = Some st \<and>
      raw (length (evaluator_calls log)) (evaluation_prompt st) = Inr (g, fb) \<longrightarrow>
      run_from G compiled_workflow (Suc steps) Evaluate_PR_Statement s log =
        (Inl (ValidationError g), log @ [Evaluator_invoke (evaluation_prompt st)]))
   \<and> (llm G = Some l \<and> workflow_graph G = Some compiled_workflow \<and>
      l (length (llm_calls log)) (generation_prompt topic) = Inr st \<and>
      raw (length (evaluator_calls log)) (evaluation_prompt st) = Inr (g, fb) \<longrightarrow>
      ainvoke G compiled_workflow [''topic'' \<mapsto> topic] log =
        (Inl (ValidationError g),
         log @ [LLM_invoke (generation_prompt topic), Evaluator_invoke (evaluation_prompt st)]) \<and>
      generate_pr_statement G topic log =
        (Inr (fallback_statement topic),
         log @ [LLM_invoke (generation_prompt topic), Evaluator_invoke (evaluation_prompt st)]))"
proof (intro conjI impI)
  assume "raw n p = Inr (g, fb)"
  then show "validated_as_Feedback raw n p = Inl (ValidationError g)"
    using assms(2) by (rule off_schema_answer_raises)
next
  assume a: "s ''pr_statement'' = Some st \<and>
      raw (length (evaluator_calls log)) (evaluation_prompt st) = Inr (g, fb)"
  then have "validated_as_Feedback raw (length (evaluator_calls log)) (evaluation_prompt st) =
               Inl (ValidationError g)"
    using assms(2) off_schema_answer_raises by blast
  with a assms(1) have "evaluate_pr_statement_node G s log =
               (Inl (ValidationError g), log @ [Evaluator_invoke (evaluation_prompt st)])"
    by (simp add: evaluate_node_returns
          [where ev = "validated_as_Feedback raw" and statement = st])
  then show "run_from G compiled_workflow (Suc steps) Evaluate_PR_Statement s log =
        (Inl (ValidationError g), log @ [Evaluator_invoke (evaluation_prompt st)])"
    by (simp add: run_from_Evaluate)
next
  let ?s0 = "[''topic'' \<mapsto> topic]"
  let ?log1 = "log @ [LLM_invoke (generation_prompt topic)]"
  assume a: "llm G = Some l \<and> workflow_graph G = Some compiled_workflow \<and>
      l (length (llm_calls log)) (generation_prompt topic) = Inr st \<and>
      raw (length (evaluator_calls log)) (evaluation_prompt st) = Inr (g, fb)"
  then have gen: "generate_pr_statement_node G ?s0 log = (Inr [''pr_statement'' \<mapsto> st], ?log1)"
    by (simp add: generate_node_returns [where l = l and topic = topic] request_sent_def)
  have "validated_as_Feedback raw (length (evaluator_calls ?log1)) (evaluation_prompt st) =
          Inl (ValidationError g)"
    using a assms(2) off_schema_answer_raises [of raw _ _ g fb]
    by (simp add: evaluator_calls_append)
  with assms(1) have ev: "evaluate_pr_statement_node G (?s0 ++ [''pr_statement'' \<mapsto> st]) ?log1 =
          (Inl (ValidationError g), ?log1 @ [Evaluator_invoke (evaluation_prompt st)])"
    by (simp add: evaluate_node_returns
          [where ev = "validated_as_Feedback raw" and statement = st])
  show run: "ainvoke G compiled_workflow ?s0 log =
        (Inl (ValidationError g),
         log @ [LLM_invoke (generation_prompt topic), Evaluator_invoke (evaluation_prompt st)])"
    unfolding ainvoke_compiled_workflow recursion_limit_Suc
    apply (subst run_from_Generate)
    apply (simp only: gen prod.case sum.case)
    apply (subst run_from_Evaluate)
    apply (simp only: ev prod.case sum.case)
    apply simp
    done
  show "generate_pr_statement G topic log =
        (Inr (fallback_statement topic),
         log @ [LLM_invoke (generation_prompt topic), Evaluator_invoke (evaluation_prompt st)])"
    using a run by (simp add: generate_pr_statement_def generate_pr_statement_try_def)
qed

text \<open>The theorem for the model that answers \<open>excellent\<close>, in the first round on topic \<open>X\<close>.\<close>

theorem off_schema_grade_witness:
  "validated_as_Feedback model_answers_excellent 0 (evaluation_prompt ''Statement A'') =
     Inl (ValidationError ''excellent'')
   \<and> ainvoke (initialized llm_statement_A (validated_as_Feedback model_answers_excellent))
       compiled_workflow [''topic'' \<mapsto> ''X''] [] =
     (Inl (ValidationError ''excellent''),
      [LLM_invoke (generation_prompt ''X''),
       Evaluator_invoke (evaluation_prompt ''Statement A'')])
   \<and> generate_pr_statement
       (initialized llm_statement_A (validated_as_Feedback model_answers_excellent)) ''X'' [] =
     (Inr (fallback_statement ''X''),
      [LLM_invoke (generation_prompt ''X''),
       Evaluator_invoke (evaluation_prompt ''Statement A'')])"
  using off_schema_grade_aborts_run
    [of "initialized llm_statement_A (validated_as_Feedback model_answers_excellent)"
        model_answers_excellent "''excellent''" 0 "evaluation_prompt ''Statement A''"
        "''add benefits''" "[''topic'' \<mapsto> ''X'', ''pr_statement'' \<mapsto> ''Statement A'']"
        "''Statement A''" "[]" 0 llm_statement_A "''X''"]
  by (simp add: initialized_def model_answers_excellent_def llm_statement_A_def
        grade_literals_def)

subsection \<open>C6: the workflow is not initialised\<close>

text \<open>
  C6 on the code: in a process where \<open>initialize_pr_generator\<close> has not run, the
  \<open>RuntimeError\<close> that \<open>generate_pr_statement\<close> raises for the missing workflow is caught
  by its own \<open>except\<close> clause; the call returns the fallback statement, without any call
  to a handle.
\<close>

theorem uninitialized_workflow_returns_fallback:
  "generate_pr_statement_try (generator initial_app) ''X'' [] =
     (Inl (RuntimeError ''Workflow not initialized. Call initialize_pr_generator() first.''), [])
   \<and> generate_pr_statement (generator initial_app) ''X'' [] =
     (Inr (fallback_statement ''X''), [])"
  by (simp add: generate_pr_statement_def generate_pr_statement_try_def initial_app_def)

subsection \<open>C7: a missing credential\<close>

text \<open>
  C7. When \<open>GROQ_API_KEY\<close> is missing from the environment or empty, \<open>initialize_llm\<close>
  raises the \<open>ValueError\<close> and leaves the globals as they were; the start-up part of
  \<open>lifespan\<close> raises it in turn and leaves the process state as it was (the flag
  \<open>_pr_generator_initialized\<close> is not set); and the process ends with that exception
  without having handled any of the requests or called a handle.
\<close>

theorem missing_credential_fails_startup:
  assumes "env ''GROQ_API_KEY'' = None \<or> env ''GROQ_API_KEY'' = Some []"
  shows "initialize_llm L env G =
           (Inl (ValueError ''GROQ_API_KEY not found in environment variables''), G)
         \<and> lifespan L env A =
           (Inl (ValueError ''GROQ_API_KEY not found in environment variables''), A)
         \<and> serve L env topics log =
           (Inl (ValueError ''GROQ_API_KEY not found in environment variables''), log)"
proof -
  have init: "initialize_llm L env G' =
           (Inl (ValueError ''GROQ_API_KEY not found in environment variables''), G')" for G'
    using assms by (auto simp: initialize_llm_def)
  then have life: "lifespan L env A' =
           (Inl (ValueError ''GROQ_API_KEY not found in environment variables''), A')" for A'
    by (simp add: lifespan_def initialize_pr_generator_def)
  show ?thesis
    by (simp add: init life serve_def)
qed

text \<open>The theorem for an environment without the variable and for one where it is empty.\<close>

theorem missing_credential_witness:
  "serve scripted_library Map.empty [''X''] [] =
     (Inl (ValueError ''GROQ_API_KEY not found in environment variables''), [])
   \<and> lifespan scripted_library [''GROQ_API_KEY'' \<mapsto> []] initial_app =
     (Inl (ValueError ''GROQ_API_KEY not found in environment variables''), initial_app)"
  using missing_credential_fails_startup
      [of Map.empty scripted_library "generator initial_app" initial_app "[''X'']" "[]"]
    missing_credential_fails_startup
      [of "[''GROQ_API_KEY'' \<mapsto> []]" scripted_library "generator initial_app" initial_app
          "[''X'']" "[]"]
  by simp

subsection \<open>C8: the feedback is replaced, not accumulated\<close>

text \<open>
  C8. Whatever feedback the state holds when an evaluation starts has no influence on the
  rest of the run: the evaluation overwrites it (first conjunct, for every earlier value
  \<open>old\<close>, absent or present). After an evaluation that rejects with the result \<open>d\<close>, the
  next generation call is made with the request built from the topic and from the
  feedback of \<open>d\<close> alone (the base prompt when that feedback is empty), and the run
  continues with the evaluation of its content (second conjunct, for a round within the
  recursion limit).
\<close>

theorem feedback_is_overwritten_not_accumulated:
  "run_from G compiled_workflow steps Evaluate_PR_Statement (s(''feedback'' := old)) log =
     run_from G compiled_workflow steps Evaluate_PR_Statement s log
   \<and> (llm G = Some l \<and> evaluator G = Some ev \<and> s ''topic'' = Some t \<and>
      s ''pr_statement'' = Some st \<and>
      ev (length (evaluator_calls log)) (evaluation_prompt st) = Inr d \<and> grade d \<noteq> GOOD \<longrightarrow>
      run_from G compiled_workflow (Suc (Suc steps)) Evaluate_PR_Statement s log =
        (case l (length (llm_calls log))
                (if feedback d \<noteq> [] then generation_prompt t @ feedback_clause (feedback d)
                 else generation_prompt t) of
           Inl e \<Rightarrow>
             (Inl e,
              log @ [Evaluator_invoke (evaluation_prompt st),
                     LLM_invoke (if feedback d \<noteq> []
                                 then generation_prompt t @ feedback_clause (feedback d)
                                 else generation_prompt t)])
         | Inr content \<Rightarrow>
             run_from G compiled_workflow steps Evaluate_PR_Statement
               (s(''grade'' \<mapsto> literal (grade d), ''feedback'' \<mapsto> feedback d,
                  ''pr_statement'' \<mapsto> content))
               (log @ [Evaluator_invoke (evaluation_prompt st),
                       LLM_invoke (if feedback d \<noteq> []
                                   then generation_prompt t @ feedback_clause (feedback d)
                                   else generation_prompt t)])))"
proof (intro conjI impI)
  have same: "(s(''feedback'' := old)) ++ update = s ++ update"
    if "update ''feedback'' \<noteq> None" for update
    using that by (auto simp: map_add_def fun_eq_iff split: option.splits)
  show "run_from G compiled_workflow steps Evaluate_PR_Statement (s(''feedback'' := old)) log =
     run_from G compiled_workflow steps Evaluate_PR_Statement s log"
  proof (cases steps)
    case 0
    then show ?thesis by (simp add: run_from_out_of_steps)
  next
    case (Suc k)
    show ?thesis
      unfolding Suc run_from_Evaluate [of G k "s(''feedback'' := old)"] run_from_Evaluate [of G k s]
        evaluate_node_ignores_stored_verdict
      using same by (auto split: prod.splits sum.splits dest!: evaluate_node_Inr)
  qed
next
  let ?req = "if feedback d \<noteq> [] then generation_prompt t @ feedback_clause (feedback d)
              else generation_prompt t"
  let ?s1 = "s(''grade'' \<mapsto> literal (grade d), ''feedback'' \<mapsto> feedback d)"
  let ?log1 = "log @ [Evaluator_invoke (evaluation_prompt st)]"
  assume a: "llm G = Some l \<and> evaluator G = Some ev \<and> s ''topic'' = Some t \<and>
      s ''pr_statement'' = Some st \<and>
      ev (length (evaluator_calls log)) (evaluation_prompt st) = Inr d \<and> grade d \<noteq> GOOD"
  then have step: "run_from G compiled_workflow (Suc (Suc steps)) Evaluate_PR_Statement s log =
                 run_from G compiled_workflow (Suc steps) Generate_PR_Statement ?s1 ?log1"
    using evaluation_rejected_step [of G ev s st log d "Suc steps"] by simp
  have req: "request_sent t (?s1 ''feedback'') = ?req"
    by (simp add: request_sent_def)
  have "generate_pr_statement_node G ?s1 ?log1 =
          (case l (length (llm_calls log)) ?req of
             Inl e \<Rightarrow> (Inl e, ?log1 @ [LLM_invoke ?req])
           | Inr content \<Rightarrow> (Inr [''pr_statement'' \<mapsto> content], ?log1 @ [LLM_invoke ?req]))"
    using a unfolding req [symmetric]
    by (subst generate_node_returns [where l = l and topic = t]) (simp_all add: llm_calls_append)
  then show "run_from G compiled_workflow (Suc (Suc steps)) Evaluate_PR_Statement s log =
        (case l (length (llm_calls log)) ?req of
           Inl e \<Rightarrow> (Inl e, log @ [Evaluator_invoke (evaluation_prompt st), LLM_invoke ?req])
         | Inr content \<Rightarrow>
             run_from G compiled_workflow steps Evaluate_PR_Statement
               (s(''grade'' \<mapsto> literal (grade d), ''feedback'' \<mapsto> feedback d,
                  ''pr_statement'' \<mapsto> content))
               (log @ [Evaluator_invoke (evaluation_prompt st), LLM_invoke ?req]))"
    unfolding step run_from_Generate [of G steps ?s1 ?log1]
    by (simp split: sum.splits)
qed

text \<open>
  The theorem for a state that holds the draft and an earlier feedback \<open>be shorter\<close>: the
  evaluation answers \<open>add benefits\<close>, and the request of the next generation carries
  \<open>add benefits\<close> only; the run is the one of the state without the earlier feedback.
\<close>

theorem feedback_witness:
  "run_from (initialized llm_draft_then_final evaluator_rejects_once) compiled_workflow
     (Suc (Suc (Suc 0))) Evaluate_PR_Statement
     [''topic'' \<mapsto> ''X'', ''pr_statement'' \<mapsto> ''Draft'', ''feedback'' \<mapsto> ''be shorter'']
     [LLM_invoke (generation_prompt ''X'')] =
   run_from (initialized llm_draft_then_final evaluator_rejects_once) compiled_workflow
     (Suc (Suc (Suc 0))) Evaluate_PR_Statement [''topic'' \<mapsto> ''X'', ''pr_statement'' \<mapsto> ''Draft'']
     [LLM_invoke (generation_prompt ''X'')]
   \<and> snd (run_from (initialized llm_draft_then_final evaluator_rejects_once) compiled_workflow
          (Suc (Suc (Suc 0))) Evaluate_PR_Statement
          [''topic'' \<mapsto> ''X'', ''pr_statement'' \<mapsto> ''Draft'']
          [LLM_invoke (generation_prompt ''X'')]) =
     [LLM_invoke (generation_prompt ''X''),
      Evaluator_invoke (evaluation_prompt ''Draft''),
      LLM_invoke (generation_prompt ''X'' @ feedback_clause ''add benefits''),
      Evaluator_invoke (evaluation_prompt ''Final'')]"
proof -
  let ?G = "initialized llm_draft_then_final evaluator_rejects_once"
  let ?s = "[''topic'' \<mapsto> ''X'', ''pr_statement'' \<mapsto> ''Draft'']"
  let ?log = "[LLM_invoke (generation_prompt ''X'')]"
  let ?d = "\<lparr>grade = NEEDS_IMPROVEMENT, feedback = ''add benefits''\<rparr>"
  have hyp: "llm ?G = Some llm_draft_then_final \<and> evaluator ?G = Some evaluator_rejects_once \<and>
      ?s ''topic'' = Some ''X'' \<and> ?s ''pr_statement'' = Some ''Draft'' \<and>
      evaluator_rejects_once (length (evaluator_calls ?log)) (evaluation_prompt ''Draft'') =
        Inr ?d \<and> grade ?d \<noteq> GOOD"
    by (simp add: initialized_def evaluator_rejects_once_def)
  have first: "run_from ?G compiled_workflow (Suc (Suc (Suc 0))) Evaluate_PR_Statement
                 (?s(''feedback'' \<mapsto> ''be shorter'')) ?log =
               run_from ?G compiled_workflow (Suc (Suc (Suc 0))) Evaluate_PR_Statement ?s ?log"
    using feedback_is_overwritten_not_accumulated
      [of ?G "Suc (Suc (Suc 0))" ?s "Some ''be shorter''" ?log]
    by (rule conjunct1)
  have round: "run_from ?G compiled_workflow (Suc (Suc (Suc 0))) Evaluate_PR_Statement ?s ?log =
        (case llm_draft_then_final (length (llm_calls ?log))
                (if feedback ?d \<noteq> [] then generation_prompt ''X'' @ feedback_clause (feedback ?d)
                 else generation_prompt ''X'') of
           Inl e \<Rightarrow>
             (Inl e,
              ?log @ [Evaluator_invoke (evaluation_prompt ''Draft''),
                      LLM_invoke (if feedback ?d \<noteq> []
                                  then generation_prompt ''X'' @ feedback_clause (feedback ?d)
                                  else generation_prompt ''X'')])
         | Inr content \<Rightarrow>
             run_from ?G compiled_workflow (Suc 0) Evaluate_PR_Statement
               (?s(''grade'' \<mapsto> literal (grade ?d), ''feedback'' \<mapsto> feedback ?d,
                   ''pr_statement'' \<mapsto> content))
               (?log @ [Evaluator_invoke (evaluation_prompt ''Draft''),
                        LLM_invoke (if feedback ?d \<noteq> []
                                    then generation_prompt ''X'' @ feedback_clause (feedback ?d)
                                    else generation_prompt ''X'')]))"
    using feedback_is_overwritten_not_accumulated
      [of ?G "Suc 0" ?s "Some ''be shorter''" ?log llm_draft_then_final evaluator_rejects_once
          "''X''" "''Draft''" ?d, THEN conjunct2] hyp
    by (rule mp)
  have rest: "snd
         (case llm_draft_then_final (length (llm_calls ?log))
                (if feedback ?d \<noteq> [] then generation_prompt ''X'' @ feedback_clause (feedback ?d)
                 else generation_prompt ''X'') of
           Inl e \<Rightarrow>
             (Inl e,
              ?log @ [Evaluator_invoke (evaluation_prompt ''Draft''),
                      LLM_invoke (if feedback ?d \<noteq> []
                                  then generation_prompt ''X'' @ feedback_clause (feedback ?d)
                                  else generation_prompt ''X'')])
         | Inr content \<Rightarrow>
             run_from ?G compiled_workflow (Suc 0) Evaluate_PR_Statement
               (?s(''grade'' \<mapsto> literal (grade ?d), ''feedback'' \<mapsto> feedback ?d,
                   ''pr_statement'' \<mapsto> content))
               (?log @ [Evaluator_invoke (evaluation_prompt ''Draft''),
                        LLM_invoke (if feedback ?d \<noteq> []
                                    then generation_prompt ''X'' @ feedback_clause (feedback ?d)
                                    else generation_prompt ''X'')])) =
     [LLM_invoke (generation_prompt ''X''),
      Evaluator_invoke (evaluation_prompt ''Draft''),
      LLM_invoke (generation_prompt ''X'' @ feedback_clause ''add benefits''),
      Evaluator_invoke (evaluation_prompt ''Final'')]"
    by (simp add: llm_draft_then_final_def run_from_Evaluate evaluate_pr_statement_node_def
          initialized_def evaluator_rejects_once_def)
  show ?thesis
    using first round rest by (simp only: fun_upd_apply)
qed

subsection \<open>C9: the topic entry\<close>

text \<open>
  C9. The dictionary that the generation node returns and the one that the evaluation
  node returns have no \<open>topic\<close> key; a run from any node, of any length, ends in a state
  whose \<open>topic\<close> entry is the one it started with; and the final state of the workflow
  invoked on a topic has that topic as its \<open>topic\<close> entry.
\<close>

theorem topic_is_never_modified:
  "(\<forall>update log'. generate_pr_statement_node G s log = (Inr update, log') \<longrightarrow>
       ''topic'' \<notin> dom update)
   \<and> (\<forall>update log'. evaluate_pr_statement_node G s log = (Inr update, log') \<longrightarrow>
       ''topic'' \<notin> dom update)
   \<and> (\<forall>s' log'. run_from G g steps n s log = (Inr s', log') \<longrightarrow> s' ''topic'' = s ''topic'')
   \<and> (\<forall>s' log'. ainvoke G g [''topic'' \<mapsto> topic] log = (Inr s', log') \<longrightarrow>
         s' ''topic'' = Some topic)"
proof (intro conjI allI impI)
  fix update log'
  assume "generate_pr_statement_node G s log = (Inr update, log')"
  then show "''topic'' \<notin> dom update"
    by (auto simp: domIff dest: node_update_keeps_topic)
next
  fix update log'
  assume "evaluate_pr_statement_node G s log = (Inr update, log')"
  then show "''topic'' \<notin> dom update"
    by (auto simp: domIff dest: node_update_keeps_topic)
next
  fix s' log'
  assume "run_from G g steps n s log = (Inr s', log')"
  then show "s' ''topic'' = s ''topic''"
    by (rule run_from_keeps_topic)
next
  fix s' log'
  assume a: "ainvoke G g [''topic'' \<mapsto> topic] log = (Inr s', log')"
  then obtain n0 where
    "run_from G g recursion_limit n0 [''topic'' \<mapsto> topic] log = (Inr s', log')"
    by (auto simp: ainvoke_def split: sum.splits)
  from run_from_keeps_topic [OF this] show "s' ''topic'' = Some topic"
    by simp
qed

text \<open>The theorem for the run of two rounds on the topic \<open>X\<close>.\<close>

theorem topic_witness:
  "\<exists>s' log'. ainvoke (initialized llm_draft_then_final evaluator_rejects_once) compiled_workflow
       [''topic'' \<mapsto> ''X''] [] = (Inr s', log')
     \<and> length log' = 4 \<and> s' ''topic'' = Some ''X'' \<and> s' ''pr_statement'' = Some ''Final''"
proof -
  have "\<exists>s' log'. ainvoke (initialized llm_draft_then_final evaluator_rejects_once) compiled_workflow
       [''topic'' \<mapsto> ''X''] [] = (Inr s', log') \<and> length log' = 4
       \<and> s' ''pr_statement'' = Some ''Final''"
    by (simp add: initialized_def ainvoke_compiled_workflow recursion_limit_def eval_nat_numeral
        run_from_Generate run_from_Evaluate generate_pr_statement_node_def
        evaluate_pr_statement_node_def llm_draft_then_final_def evaluator_rejects_once_def)
  then show ?thesis
    using topic_is_never_modified
      [of "initialized llm_draft_then_final evaluator_rejects_once" "[''topic'' \<mapsto> ''X'']" "[]"
          compiled_workflow recursion_limit START "''X''"]
    by blast
qed

subsection \<open>C10: no exception leaves generate\_pr\_statement\<close>

text \<open>
  C10. \<open>generate_pr_statement\<close> never returns an exception to its caller: whatever
  exception the body of its \<open>try\<close> raises, the function returns the fallback statement of
  the topic. This is so in particular when the workflow is not initialised (the body
  raises the \<open>RuntimeError\<close>) and when the run of the workflow ends with an exception,
  such as one of a provider call. The fallback statement is a fixed text around the topic.
\<close>

theorem generate_pr_statement_never_raises:
  "generate_pr_statement G topic log \<noteq> (Inl e, log')
   \<and> (generate_pr_statement_try G topic log = (Inl e, log') \<longrightarrow>
        generate_pr_statement G topic log = (Inr (fallback_statement topic), log'))
   \<and> (workflow_graph G = None \<longrightarrow>
        generate_pr_statement_try G topic log =
          (Inl (RuntimeError
                  ''Workflow not initialized. Call initialize_pr_generator() first.''), log) \<and>
        generate_pr_statement G topic log = (Inr (fallback_statement topic), log))
   \<and> (workflow_graph G = Some g \<and> ainvoke G g [''topic'' \<mapsto> topic] log = (Inl e, log') \<longrightarrow>
        generate_pr_statement_try G topic log = (Inl e, log') \<and>
        generate_pr_statement G topic log = (Inr (fallback_statement topic), log'))
   \<and> (\<exists>before after. \<forall>t. fallback_statement t = before @ t @ after)"
proof -
  have "generate_pr_statement G topic log \<noteq> (Inl e, log')"
    by (simp add: generate_pr_statement_def split: prod.splits sum.splits)
  moreover have "\<exists>before after. \<forall>t. fallback_statement t = before @ t @ after"
    unfolding fallback_statement_def by blast
  moreover have "generate_pr_statement_try G topic log = (Inl e, log') \<longrightarrow>
        generate_pr_statement G topic log = (Inr (fallback_statement topic), log')"
    by (simp add: generate_pr_statement_def)
  ultimately show ?thesis
    by (simp add: generate_pr_statement_def generate_pr_statement_try_def)
qed

text \<open>
  The theorem for the process that was never initialised and for an evaluator that raises
  after the first generation.
\<close>

theorem never_raises_witness:
  "generate_pr_statement (generator initial_app) ''X'' [] = (Inr (fallback_statement ''X''), [])
   \<and> generate_pr_statement (initialized llm_statement_A evaluator_unreachable) ''X'' [] =
       (Inr (fallback_statement ''X''),
        [LLM_invoke (generation_prompt ''X''),
         Evaluator_invoke (evaluation_prompt ''Statement A'')])"
proof -
  have run: "ainvoke (initialized llm_statement_A evaluator_unreachable) compiled_workflow
               [''topic'' \<mapsto> ''X''] [] =
             (Inl (ProviderException ''Connection error.''),
              [LLM_invoke (generation_prompt ''X''),
               Evaluator_invoke (evaluation_prompt ''Statement A'')])"
    by (simp add: initialized_def ainvoke_compiled_workflow recursion_limit_def eval_nat_numeral
          run_from_Generate run_from_Evaluate generate_pr_statement_node_def
          evaluate_pr_statement_node_def llm_statement_A_def evaluator_unreachable_def)
  have g: "workflow_graph (initialized llm_statement_A evaluator_unreachable) =
             Some compiled_workflow"
    by (simp add: initialized_def)
  have n: "workflow_graph (generator initial_app) = None"
    by (simp add: initial_app_def)
  show ?thesis
    using generate_pr_statement_never_raises
            [of "generator initial_app" "''X''" "[]" "RuntimeError []" "[]" compiled_workflow]
          generate_pr_statement_never_raises
            [of "initialized llm_statement_A evaluator_unreachable" "''X''" "[]"
                "ProviderException ''Connection error.''"
                "[LLM_invoke (generation_prompt ''X''),
                  Evaluator_invoke (evaluation_prompt ''Statement A'')]"
                compiled_workflow]
          run g n
    by simp
qed

end
